theory Spec2Isabelle
  imports Complex_Main "HOL-Library.Sublist"
begin

section \<open>Python strings\<close>

text \<open>
  The program is \<^verbatim>\<open>src/app.py\<close>, a Streamlit script. A Python \<^verbatim>\<open>str\<close> is modelled
  as a \<open>string\<close>, one \<open>char\<close> per code point, which covers the code points below 256
  (ASCII and Latin-1). On these the string methods below follow Python:
  \<^verbatim>\<open>str.lower\<close> maps \<^verbatim>\<open>A-Z\<close> and the Latin-1 capitals (U+00C0 to U+00DE without U+00D7)
  to the letter 32 places up, and \<^verbatim>\<open>str.strip\<close> removes the characters for which
  \<^verbatim>\<open>str.isspace\<close> holds.
\<close>

definition lower_char :: "char \<Rightarrow> char" where
  "lower_char c =
     (let n = (of_char c :: nat)
      in if (65 \<le> n \<and> n \<le> 90) \<or> (192 \<le> n \<and> n \<le> 222 \<and> n \<noteq> 215)
         then char_of (n + 32) else c)"

definition py_lower :: "string \<Rightarrow> string" where
  "py_lower s = map lower_char s"

definition py_isspace :: "char \<Rightarrow> bool" where
  "py_isspace c =
     (let n = (of_char c :: nat)
      in (9 \<le> n \<and> n \<le> 13) \<or> (28 \<le> n \<and> n \<le> 32) \<or> n = 133 \<or> n = 160)"

definition py_strip :: "string \<Rightarrow> string" where
  "py_strip s = rev (dropWhile py_isspace (rev (dropWhile py_isspace s)))"

text \<open>
  \<^verbatim>\<open>s.replace(old, new)\<close> scans \<open>s\<close> from the left and replaces each occurrence of
  \<open>old\<close> it meets, continuing after the replaced text (occurrences do not overlap).
  With an empty \<open>old\<close> Python puts \<open>new\<close> before every character and at the end.
\<close>

fun replace_from :: "string \<Rightarrow> string \<Rightarrow> string \<Rightarrow> string" where
  "replace_from old new [] = []"
| "replace_from old new (c # cs) =
     (if old \<noteq> [] \<and> prefix old (c # cs)
      then new @ replace_from old new (drop (length old - 1) cs)
      else c # replace_from old new cs)"

definition py_replace :: "string \<Rightarrow> string \<Rightarrow> string \<Rightarrow> string" where
  "py_replace old new s =
     (if old = [] then new @ concat (map (\<lambda>c. c # new) s) else replace_from old new s)"

text \<open>\<^verbatim>\<open>sub in s\<close>: \<open>sub\<close> occurs in \<open>s\<close> as a contiguous substring.\<close>

fun py_in :: "string \<Rightarrow> string \<Rightarrow> bool" where
  "py_in sub [] = (sub = [])"
| "py_in sub (c # cs) = (prefix sub (c # cs) \<or> py_in sub cs)"

text \<open>
  \<^verbatim>\<open>xs[i:]\<close> for a list: a negative \<open>i\<close> counts from the end, and a start outside the
  list is clipped to it.
\<close>

definition py_slice_from :: "int \<Rightarrow> 'a list \<Rightarrow> 'a list" where
  "py_slice_from i xs =
     (let n = int (length xs);
          start = (if i < 0 then max 0 (n + i) else min i n)
      in drop (nat start) xs)"

section \<open>Python values and exceptions\<close>

text \<open>
  The values \<^verbatim>\<open>json.loads\<close> can return: \<^verbatim>\<open>None\<close>, a bool, an int, a float (kept as the
  literal it was read from; the program never computes with it), a str, a list, or a dict
  with string keys (an association list with distinct keys, in insertion order).
\<close>

datatype json =
    JNull
  | JBool bool
  | JInt int
  | JFloat string
  | JStr string
  | JList "json list"
  | JDict "(string \<times> json) list"

text \<open>The exceptions the modelled statements can raise.\<close>

datatype py_error = KeyError | TypeError | AttributeError

text \<open>
  \<^verbatim>\<open>v[key]\<close> with a string key: a dict looks the key up and raises KeyError when it is
  missing; a list or a str raises TypeError (their indices must be integers); the other
  values are not subscriptable (TypeError).
\<close>

fun py_getitem :: "json \<Rightarrow> string \<Rightarrow> py_error + json" where
  "py_getitem (JDict kvs) key =
     (case map_of kvs key of None \<Rightarrow> Inl KeyError | Some v \<Rightarrow> Inr v)"
| "py_getitem v key = Inl TypeError"

text \<open>
  \<^verbatim>\<open>v.lower().replace(' ', '_')\<close>: only a str has the method \<^verbatim>\<open>lower\<close>; on any other
  value the attribute lookup raises AttributeError.
\<close>

fun lower_replace :: "json \<Rightarrow> py_error + string" where
  "lower_replace (JStr s) = Inr (py_replace '' '' ''_'' (py_lower s))"
| "lower_replace v = Inl AttributeError"

section \<open>The world outside the script\<close>

text \<open>
  What one submission gets from outside the script, taken as parameters:
  \<^item> \<open>generate\<close>: \<^verbatim>\<open>model.generate_content(prompt)\<close> followed by \<^verbatim>\<open>response.text\<close>, which
    either raises or gives the text of the reply;
  \<^item> \<open>loads\<close>: \<^verbatim>\<open>json.loads\<close> of the Python library, \<open>None\<close> when it raises;
  \<^item> \<open>str_of\<close>: \<^verbatim>\<open>str(v)\<close> for a value that is not a string, as an f-string formats it;
  \<^item> the three readings of \<^verbatim>\<open>time.time()\<close>, in the order the handler takes them.
\<close>

datatype reply = Failed | Text string

record world =
  generate :: "string \<Rightarrow> reply"
  loads :: "string \<Rightarrow> json option"
  str_of :: "json \<Rightarrow> string"
  time_user :: real
  time_entry :: real
  time_bot :: real

section \<open>Session state\<close>

text \<open>
  \<^verbatim>\<open>st.session_state.messages\<close> is a list of dicts with the keys role, content and
  timestamp, and category on the assistant's turns;
  \<^verbatim>\<open>st.session_state.requirements\<close> is a dict from category key to a list of entries.
\<close>

record message =
  role :: string
  content :: string
  category :: "json option"
  timestamp :: real

record requirement_entry =
  original :: string
  rewritten :: json
  explanation :: json
  created :: real

record session_state =
  messages :: "message list"
  requirements :: "(string \<times> requirement_entry list) list"

definition empty_requirements :: "(string \<times> requirement_entry list) list" where
  "empty_requirements =
     [(''functional'', []), (''non_functional'', []), (''domain'', []), (''inverse'', [])]"

text \<open>Lines 19 to 27: a new session has neither key, so both are initialised.\<close>

definition init_state :: session_state where
  "init_state = \<lparr>messages = [], requirements = empty_requirements\<rparr>"

text \<open>
  \<^verbatim>\<open>d[key].append(x)\<close> on a dict of lists: KeyError when the key is missing, otherwise
  the list under the key grows by \<open>x\<close> at its end and nothing else changes.
\<close>

fun dict_append :: "string \<Rightarrow> 'a \<Rightarrow> (string \<times> 'a list) list \<Rightarrow> py_error + (string \<times> 'a list) list" where
  "dict_append key x [] = Inl KeyError"
| "dict_append key x ((k, xs) # rest) =
     (if k = key then Inr ((k, xs @ [x]) # rest)
      else (case dict_append key x rest of
              Inl e \<Rightarrow> Inl e
            | Inr rest' \<Rightarrow> Inr ((k, xs) # rest')))"

text \<open>\<^verbatim>\<open>len(d[key])\<close>, the number the sidebar shows for a category (lines 120 to 123).\<close>

definition count_of :: "session_state \<Rightarrow> string \<Rightarrow> nat option" where
  "count_of st key = map_option length (map_of (requirements st) key)"

section \<open>classify_requirement (lines 47 to 90)\<close>

definition prompt :: "string \<Rightarrow> string" where
  "prompt requirement_text =
     ''\<newline>    Analyze the following requirement and classify it into one of these categories:\<newline>'' @
     ''    1. Functional Requirement\<newline>'' @
     ''    2. Non-Functional Requirement\<newline>'' @
     ''    3. Domain Requirement\<newline>'' @
     ''    4. Inverse Requirement (what the system should NOT do)\<newline>'' @
     ''\<newline>'' @
     ''    Requirement: \"'' @ requirement_text @ ''\"\<newline>'' @
     ''\<newline>'' @
     ''    Respond in JSON format only with this structure:\<newline>'' @
     ''    {\<newline>'' @
     ''        \"classification\": \"category_name\",\<newline>'' @
     ''        \"explanation\": \"brief explanation\",\<newline>'' @
     ''        \"suggested_rewrite\": \"suggested rewritten requirement if needed, otherwise keep original\"\<newline>'' @
     ''    }\<newline>'' @
     ''\<newline>'' @
     ''    Rules:\<newline>'' @
     ''    - Functional: Describes what the system should do (features, behaviors)\<newline>'' @
     ''    - Non-Functional: Describes how the system should behave (performance, security, usability)\<newline>'' @
     ''    - Domain: Specific to the business/industry domain\<newline>'' @
     ''    - Inverse: Describes what the system should NOT do or restrictions\<newline>'' @
     ''    ''"

text \<open>The dict of the \<^verbatim>\<open>except\<close> branch (lines 86 to 90).\<close>

definition fallback :: "string \<Rightarrow> json" where
  "fallback requirement_text =
     JDict [(''classification'', JStr ''Unknown''),
            (''explanation'', JStr ''Failed to classify''),
            (''suggested_rewrite'', JStr requirement_text)]"

text \<open>Line 79: what is done to the reply before it is decoded.\<close>

definition strip_fences :: "string \<Rightarrow> string" where
  "strip_fences response_text =
     py_strip (py_replace ''```'' [] (py_replace ''```json'' [] response_text))"

text \<open>
  The \<^verbatim>\<open>try\<close> block returns whatever \<^verbatim>\<open>json.loads\<close> returns; the \<^verbatim>\<open>except\<close> branch is
  taken when the call, \<^verbatim>\<open>response.text\<close> or \<^verbatim>\<open>json.loads\<close> raises. (The notice that
  \<^verbatim>\<open>st.error\<close> shows in that branch is display only and is not modelled.)
\<close>

definition classify_requirement :: "world \<Rightarrow> string \<Rightarrow> json" where
  "classify_requirement w requirement_text =
     (case generate w (prompt requirement_text) of
        Failed \<Rightarrow> fallback requirement_text
      | Text response_text \<Rightarrow>
          (case loads w (strip_fences response_text) of
             None \<Rightarrow> fallback requirement_text
           | Some result \<Rightarrow> result))"

section \<open>add_requirement (lines 93 to 113)\<close>

text \<open>
  Lines 95 to 104, the chain that picks the category key from the normalised label
  (the spec's \<open>resolve_category\<close> is lines 94 to 104 on a label that is a string).
\<close>

definition category_key_of :: "string \<Rightarrow> string" where
  "category_key_of category' =
     (if py_in ''functional'' category' then ''functional''
      else if py_in ''non_functional'' category' \<or> py_in ''non-functional'' category'
        then ''non_functional''
      else if py_in ''domain'' category' then ''domain''
      else if py_in ''inverse'' category' then ''inverse''
      else ''functional'')"

definition resolve_category :: "string \<Rightarrow> string" where
  "resolve_category label = category_key_of (py_replace '' '' ''_'' (py_lower label))"

definition add_requirement :: "world \<Rightarrow> string \<Rightarrow> json \<Rightarrow> session_state \<Rightarrow> py_error + session_state" where
  "add_requirement w original_text classification_result st =
     (case py_getitem classification_result ''classification'' of
        Inl e \<Rightarrow> Inl e
      | Inr label \<Rightarrow>
     (case lower_replace label of
        Inl e \<Rightarrow> Inl e
      | Inr category' \<Rightarrow>
     (case py_getitem classification_result ''suggested_rewrite'' of
        Inl e \<Rightarrow> Inl e
      | Inr rewrite \<Rightarrow>
     (case py_getitem classification_result ''explanation'' of
        Inl e \<Rightarrow> Inl e
      | Inr expl \<Rightarrow>
     (case dict_append (category_key_of category')
             \<lparr>original = original_text, rewritten = rewrite, explanation = expl,
              created = time_entry w\<rparr>
             (requirements st) of
        Inl e \<Rightarrow> Inl e
      | Inr reqs \<Rightarrow> Inr (st\<lparr>requirements := reqs\<rparr>))))))"

section \<open>The submission handler (lines 149 to 185)\<close>

text \<open>An f-string prints a str as it is, and any other value through \<^verbatim>\<open>str\<close>.\<close>

definition py_format :: "world \<Rightarrow> json \<Rightarrow> string" where
  "py_format w v = (case v of JStr s \<Rightarrow> s | _ \<Rightarrow> str_of w v)"

definition bot_response :: "world \<Rightarrow> json \<Rightarrow> json \<Rightarrow> json \<Rightarrow> string" where
  "bot_response w category' explanation' rewrite =
     ''\<newline>        **Classification:** '' @ py_format w category' @ ''\<newline>'' @
     ''        \<newline>'' @
     ''        **Explanation:** '' @ py_format w explanation' @ ''\<newline>'' @
     ''        \<newline>'' @
     ''        **Suggested Rewrite:** '' @ py_format w rewrite @ ''\<newline>'' @
     ''        ''"

text \<open>
  A run of the handler either reaches \<^verbatim>\<open>st.rerun()\<close> or stops at an exception nothing
  catches; the session state keeps what was written before the exception.
\<close>

datatype outcome = Done session_state | Raised py_error session_state

definition user_message :: "world \<Rightarrow> string \<Rightarrow> message" where
  "user_message w user_input =
     \<lparr>role = ''user'', content = user_input, category = None, timestamp = time_user w\<rparr>"

definition assistant_message :: "world \<Rightarrow> json \<Rightarrow> json \<Rightarrow> json \<Rightarrow> message" where
  "assistant_message w category' explanation' rewrite =
     \<lparr>role = ''assistant'', content = bot_response w category' explanation' rewrite,
      category = Some category', timestamp = time_bot w\<rparr>"

text \<open>
  \<^verbatim>\<open>if user_input:\<close> skips the handler on an empty input. Otherwise: the user's turn is
  appended (line 151), the requirement is classified (line 160) and stored (line 163),
  the three fields are read again for the reply (lines 166 to 174), and the assistant's
  turn is appended (line 178).
\<close>

definition submit :: "world \<Rightarrow> string \<Rightarrow> session_state \<Rightarrow> outcome" where
  "submit w user_input st =
     (if user_input = [] then Done st
      else
        let st1 = st\<lparr>messages := messages st @ [user_message w user_input]\<rparr>;
            classification_result = classify_requirement w user_input
        in (case add_requirement w user_input classification_result st1 of
              Inl e \<Rightarrow> Raised e st1
            | Inr st2 \<Rightarrow>
           (case py_getitem classification_result ''classification'' of
              Inl e \<Rightarrow> Raised e st2
            | Inr category' \<Rightarrow>
           (case py_getitem classification_result ''explanation'' of
              Inl e \<Rightarrow> Raised e st2
            | Inr explanation' \<Rightarrow>
           (case py_getitem classification_result ''suggested_rewrite'' of
              Inl e \<Rightarrow> Raised e st2
            | Inr rewrite \<Rightarrow>
                Done (st2\<lparr>messages := messages st2 @
                        [assistant_message w category' explanation' rewrite]\<rparr>))))))"

section \<open>The clear buttons (lines 126 to 134 and 193 to 202)\<close>

text \<open>
  Each handler is two assignments followed by \<^verbatim>\<open>st.rerun()\<close>; the sidebar's button
  assigns the requirements first, the button under the chat the messages first. The
  button under the chat exists only while there are messages.
\<close>

definition reset_requirements :: "session_state \<Rightarrow> session_state" where
  "reset_requirements st = st\<lparr>requirements := empty_requirements\<rparr>"

definition reset_messages :: "session_state \<Rightarrow> session_state" where
  "reset_messages st = st\<lparr>messages := []\<rparr>"

definition clear_all_requirements :: "session_state \<Rightarrow> session_state" where
  "clear_all_requirements st = reset_messages (reset_requirements st)"

definition clear_chat :: "session_state \<Rightarrow> session_state option" where
  "clear_chat st =
     (if messages st \<noteq> [] then Some (reset_requirements (reset_messages st)) else None)"

section \<open>What a run of the script shows\<close>

text \<open>
  Lines 188 to 190: the loop over \<^verbatim>\<open>messages[-10:]\<close> renders the role and the content of
  each turn; it reads the session state and leaves it as it is.
\<close>

definition display_messages :: "session_state \<Rightarrow> (string \<times> string) list \<times> session_state" where
  "display_messages st =
     (map (\<lambda>m. (role m, content m)) (py_slice_from (- 10) (messages st)), st)"

section \<open>Sessions\<close>

text \<open>
  Streamlit runs the script once per user action, from top to bottom, one run at a time;
  the session state is what one run leaves to the next. A session is the list of its
  actions. A run that stops at an exception leaves the state it had reached.
\<close>

datatype event = Submit world string | ClearAllRequirements | ClearChat

fun step :: "session_state \<Rightarrow> event \<Rightarrow> session_state" where
  "step st (Submit w user_input) =
     (case submit w user_input st of Done st' \<Rightarrow> st' | Raised e st' \<Rightarrow> st')"
| "step st ClearAllRequirements = clear_all_requirements st"
| "step st ClearChat = (case clear_chat st of Some st' \<Rightarrow> st' | None \<Rightarrow> st)"

definition run :: "event list \<Rightarrow> session_state" where
  "run events = foldl step init_state events"

definition category_keys :: "string list" where
  "category_keys = [''functional'', ''non_functional'', ''domain'', ''inverse'']"

section \<open>The script, statement by statement\<close>

text \<open>
  Within one run the statements that show something (the four metrics of the sidebar,
  lines 120 to 123, and the loop over the messages, lines 188 to 190) and the statements
  that write the session state run one after the other, in the order of the file. Each
  render statement reads the session state as it is when the statement runs: the trace
  records, for every render statement that ran, the state it read. The assignments of
  the clear handlers are separate statements.
\<close>

datatype render = SidebarMetrics | ChatMessages

type_synonym trace = "(render \<times> session_state) list"

definition render_metrics :: "trace \<times> session_state \<Rightarrow> trace \<times> session_state" where
  "render_metrics ts = (fst ts @ [(SidebarMetrics, snd ts)], snd ts)"

definition render_chat :: "trace \<times> session_state \<Rightarrow> trace \<times> session_state" where
  "render_chat ts = (fst ts @ [(ChatMessages, snd ts)], snd ts)"

definition assign_requirements :: "trace \<times> session_state \<Rightarrow> trace \<times> session_state" where
  "assign_requirements ts = (fst ts, reset_requirements (snd ts))"

definition assign_messages :: "trace \<times> session_state \<Rightarrow> trace \<times> session_state" where
  "assign_messages ts = (fst ts, reset_messages (snd ts))"

text \<open>
  A run ends at \<^verbatim>\<open>st.rerun()\<close>, which stops it at once and asks for a new run, or at the
  end of the file, or at an exception nothing catches.
\<close>

datatype ending = Rerun | Finished | Stopped py_error

text \<open>
  Lines 188 to 202: the messages are shown, and then, if there are messages and the
  button under the chat fired, the messages and the requirements are assigned, in this
  order, and the run ends with \<^verbatim>\<open>st.rerun()\<close>.
\<close>

definition display_and_clear_chat ::
  "event option \<Rightarrow> trace \<times> session_state \<Rightarrow> ending \<times> trace \<times> session_state" where
  "display_and_clear_chat trigger ts =
     (let ts1 = render_chat ts
      in if messages (snd ts1) \<noteq> [] \<and> trigger = Some ClearChat
         then (Rerun, assign_requirements (assign_messages ts1))
         else (Finished, ts1))"

text \<open>
  One run of the script from line 116 on. The trigger is the widget whose action started
  the run, if any: only in that run does its \<^verbatim>\<open>st.button\<close> return True or the
  \<^verbatim>\<open>st.chat_input\<close> return a text. The sidebar is rendered first; the handler of its
  button assigns the requirements and then the messages (lines 127 to 134); the
  submission handler shows nothing of the session state.
\<close>

definition script ::
  "event option \<Rightarrow> trace \<times> session_state \<Rightarrow> ending \<times> trace \<times> session_state" where
  "script trigger ts =
     (let ts1 = render_metrics ts
      in case trigger of
           Some ClearAllRequirements \<Rightarrow> (Rerun, assign_messages (assign_requirements ts1))
         | Some (Submit w user_input) \<Rightarrow>
             if user_input = [] then display_and_clear_chat trigger ts1
             else (case submit w user_input (snd ts1) of
                     Done st' \<Rightarrow> (Rerun, fst ts1, st')
                   | Raised e st' \<Rightarrow> (Stopped e, fst ts1, st'))
         | _ \<Rightarrow> display_and_clear_chat trigger ts1)"

text \<open>
  What one action of the user leads to: the run it starts and, when that run ends with
  \<^verbatim>\<open>st.rerun()\<close>, the run that follows, in which no widget fires. The result is
  everything that was rendered, with the states it was rendered from, and the state left.
\<close>

definition interaction :: "event option \<Rightarrow> session_state \<Rightarrow> trace \<times> session_state" where
  "interaction trigger st =
     (case script trigger ([], st) of
        (Rerun, ts) \<Rightarrow> snd (script None ts)
      | (Finished, ts) \<Rightarrow> ts
      | (Stopped e, ts) \<Rightarrow> ts)"

section \<open>Sample worlds\<close>

text \<open>
  For running the model on concrete replies: the values of \<^verbatim>\<open>json.loads\<close> on the
  texts used below, and worlds whose model answers with a fixed text.
\<close>

definition login_text :: string where
  "login_text = ''The system shall allow login via email''"

definition reply_functional :: string where
  "reply_functional =
     ''{\"classification\": \"Functional\", \"explanation\": \"Describes a feature\", '' @
     ''\"suggested_rewrite\": \"The system shall allow login via email\"}''"

definition reply_missing_field :: string where
  "reply_missing_field =
     ''{\"classification\": \"Functional\", \"explanation\": \"Describes a feature\"}''"

definition reply_fenced :: string where
  "reply_fenced =
     ''```json\<newline>{\"classification\": \"Domain\", \"explanation\": \"uses ```json fences\", '' @
     ''\"suggested_rewrite\": \"keep\"}\<newline>```\<newline>''"

definition json_loads_sample :: "string \<Rightarrow> json option" where
  "json_loads_sample = map_of
     [(reply_functional,
         JDict [(''classification'', JStr ''Functional''),
                (''explanation'', JStr ''Describes a feature''),
                (''suggested_rewrite'', JStr login_text)]),
      (reply_missing_field,
         JDict [(''classification'', JStr ''Functional''),
                (''explanation'', JStr ''Describes a feature'')]),
      (''{\"classification\": \"Domain\", \"explanation\": \"uses  fences\", \"suggested_rewrite\": \"keep\"}'',
         JDict [(''classification'', JStr ''Domain''),
                (''explanation'', JStr ''uses  fences''),
                (''suggested_rewrite'', JStr ''keep'')]),
      (''[]'', JList [])]"

definition sample_world :: "reply \<Rightarrow> world" where
  "sample_world r =
     \<lparr>generate = (\<lambda>p. r), loads = json_loads_sample, str_of = (\<lambda>v. []),
      time_user = 1, time_entry = 2, time_bot = 3\<rparr>"

text \<open>The state after one submission that went through.\<close>

definition sample_state :: session_state where
  "sample_state = run [Submit (sample_world (Text reply_functional)) login_text]"

section \<open>Substrings and the category chain\<close>

lemma py_in_sublist: "py_in sub s = sublist sub s"
  by (induction s) (simp_all add: sublist_Cons_right)

lemma py_in_suffix_part:
  assumes "py_in (a @ b) s"
  shows "py_in b s"
proof -
  from assms obtain ps ss where "s = ps @ (a @ b) @ ss"
    by (auto simp: py_in_sublist sublist_def)
  then have "s = (ps @ a) @ b @ ss" by simp
  then show ?thesis unfolding py_in_sublist sublist_def by blast
qed

text \<open>Both markers of the second branch contain the marker of the first.\<close>

lemma non_functional_has_functional:
  "py_in ''non_functional'' s \<or> py_in ''non-functional'' s \<Longrightarrow> py_in ''functional'' s"
  using py_in_suffix_part [of "''non_''" "''functional''" s]
        py_in_suffix_part [of "''non-''" "''functional''" s]
  by auto

lemma category_key_of_range:
  "category_key_of c = ''functional'' \<or> category_key_of c = ''domain'' \<or>
   category_key_of c = ''inverse''"
  using non_functional_has_functional [of c]
  by (auto simp: category_key_of_def)

text \<open>The labels of the spec's examples that the chain maps as the spec says.\<close>

lemma resolve_category_functional:
  "resolve_category ''Functional Requirement'' = ''functional''"
  by code_simp

lemma resolve_category_domain:
  "resolve_category ''Domain Requirement'' = ''domain''"
  by code_simp

lemma resolve_category_inverse:
  "resolve_category ''Inverse Requirement'' = ''inverse''"
  by code_simp

lemma resolve_category_banana:
  "resolve_category ''banana'' = ''functional''"
  by code_simp

text \<open>
  Claim C1 (the code at its failing input). The spec has the label
  "Non-Functional Requirement" resolve to \<open>non_functional\<close> and every one of the four keys
  reachable. In the code the test for \<open>functional\<close> comes first (line 95), and both markers
  of the second branch (line 97) contain \<open>functional\<close>: the label resolves to
  \<open>functional\<close>, and no label at all resolves to \<open>non_functional\<close>.
\<close>

theorem resolve_category_non_functional_unreachable:
  "resolve_category ''Non-Functional Requirement'' = ''functional'' \<and>
   (\<forall>label. resolve_category label \<noteq> ''non_functional'')"
proof
  show "resolve_category ''Non-Functional Requirement'' = ''functional''" by code_simp
next
  show "\<forall>label. resolve_category label \<noteq> ''non_functional''"
  proof
    fix label
    from category_key_of_range [of "py_replace '' '' ''_'' (py_lower label)"]
    show "resolve_category label \<noteq> ''non_functional''"
      unfolding resolve_category_def by auto
  qed
qed

text \<open>
  Claim C8. \<open>resolve_category\<close> is a function of the label alone (it takes neither the
  world nor the session state, so it is deterministic and has no effect), and on every
  label string it yields one of the four category keys: lines 94 to 104 have no failing
  branch when the label is a str.
\<close>

theorem resolve_category_total:
  "resolve_category label \<in> {''functional'', ''non_functional'', ''domain'', ''inverse''} \<and>
   (\<exists>c. lower_replace (JStr label) = Inr c \<and> category_key_of c = resolve_category label)"
  using category_key_of_range [of "py_replace '' '' ''_'' (py_lower label)"]
  by (auto simp: resolve_category_def)

section \<open>Appending to the store\<close>

lemma dict_append_keys:
  "dict_append key x reqs = Inr reqs' \<Longrightarrow> map fst reqs' = map fst reqs"
  by (induction reqs arbitrary: reqs') (auto split: if_splits sum.splits)

lemma dict_append_lookup:
  "dict_append key x reqs = Inr reqs' \<Longrightarrow>
   map_of reqs' k =
     (if k = key then map_option (\<lambda>xs. xs @ [x]) (map_of reqs key) else map_of reqs k)"
  by (induction reqs arbitrary: reqs') (auto split: if_splits sum.splits)

lemma dict_append_present:
  "map_of reqs key = Some old \<Longrightarrow> \<exists>reqs'. dict_append key x reqs = Inr reqs'"
  by (induction reqs) (auto split: if_splits sum.splits)

lemma dict_append_missing:
  "map_of reqs key = None \<Longrightarrow> dict_append key x reqs = Inl KeyError"
  by (induction reqs) (auto split: if_splits sum.splits)

lemma add_requirement_frame:
  "add_requirement w t r st = Inr st' \<Longrightarrow>
   map fst (requirements st') = map fst (requirements st) \<and> messages st' = messages st"
  by (auto simp: add_requirement_def split: sum.splits dest: dict_append_keys)

text \<open>
  \<open>add_requirement\<close> on a result that has the three fields, with a string for a label:
  the entry goes to the end of the list under the resolved key.
\<close>

lemma add_requirement_ok:
  assumes "py_getitem r ''classification'' = Inr (JStr label)"
      and "py_getitem r ''suggested_rewrite'' = Inr rw"
      and "py_getitem r ''explanation'' = Inr ex"
      and "map_of (requirements st) (resolve_category label) = Some old"
  shows "\<exists>reqs'. add_requirement w t r st = Inr (st\<lparr>requirements := reqs'\<rparr>) \<and>
           map fst reqs' = map fst (requirements st) \<and>
           (\<forall>k. map_of reqs' k =
              (if k = resolve_category label
               then Some (old @ [\<lparr>original = t, rewritten = rw, explanation = ex,
                                   created = time_entry w\<rparr>])
               else map_of (requirements st) k))"
proof -
  let ?e = "\<lparr>original = t, rewritten = rw, explanation = ex, created = time_entry w\<rparr>"
  from dict_append_present [OF assms(4), where x = ?e]
  obtain reqs' where d: "dict_append (resolve_category label) ?e (requirements st) = Inr reqs'"
    by blast
  have "add_requirement w t r st = Inr (st\<lparr>requirements := reqs'\<rparr>)"
    using assms(1-3) d by (simp add: add_requirement_def resolve_category_def)
  moreover have "map fst reqs' = map fst (requirements st)"
    using d by (rule dict_append_keys)
  moreover have "\<forall>k. map_of reqs' k =
      (if k = resolve_category label then Some (old @ [?e]) else map_of (requirements st) k)"
    using dict_append_lookup [OF d] assms(4) by simp
  ultimately show ?thesis by blast
qed

section \<open>A submission that goes through\<close>

lemma submit_ok:
  assumes "user_input \<noteq> []"
      and "classify_requirement w user_input = r"
      and "py_getitem r ''classification'' = Inr (JStr label)"
      and "py_getitem r ''suggested_rewrite'' = Inr rw"
      and "py_getitem r ''explanation'' = Inr ex"
      and "map_of (requirements st) (resolve_category label) = Some old"
  shows "\<exists>reqs'. submit w user_input st =
           Done \<lparr>messages = messages st @
                    [user_message w user_input, assistant_message w (JStr label) ex rw],
                 requirements = reqs'\<rparr> \<and>
           map fst reqs' = map fst (requirements st) \<and>
           (\<forall>k. map_of reqs' k =
              (if k = resolve_category label
               then Some (old @ [\<lparr>original = user_input, rewritten = rw, explanation = ex,
                                   created = time_entry w\<rparr>])
               else map_of (requirements st) k))"
proof -
  let ?st1 = "st\<lparr>messages := messages st @ [user_message w user_input]\<rparr>"
  let ?e = "\<lparr>original = user_input, rewritten = rw, explanation = ex,
             created = time_entry w\<rparr>"
  have "map_of (requirements ?st1) (resolve_category label) = Some old"
    using assms(6) by simp
  from add_requirement_ok [OF assms(3) assms(4) assms(5) this, of w user_input]
  obtain reqs' where a: "add_requirement w user_input r ?st1 = Inr (?st1\<lparr>requirements := reqs'\<rparr>)"
    and k: "map fst reqs' = map fst (requirements st)"
    and l: "\<forall>k. map_of reqs' k =
              (if k = resolve_category label then Some (old @ [?e])
               else map_of (requirements st) k)"
    by auto
  have "submit w user_input st =
           Done \<lparr>messages = messages st @
                    [user_message w user_input, assistant_message w (JStr label) ex rw],
                 requirements = reqs'\<rparr>"
    using assms(1-5) a by (cases st) (simp add: submit_def Let_def)
  with k l show ?thesis by blast
qed

lemma key_present:
  "map fst (requirements st) = category_keys \<Longrightarrow> k \<in> set category_keys \<Longrightarrow>
   \<exists>xs. map_of (requirements st) k = Some xs"
  by (metis map_of_eq_None_iff not_Some_eq list.set_map)

lemma functional_present:
  assumes "map fst (requirements st) = category_keys"
  shows "\<exists>xs. map_of (requirements st) ''functional'' = Some xs"
  using key_present [OF assms, of "''functional''"] by (simp add: category_keys_def)

lemma submit_login_functional_run:
  "submit (sample_world (Text reply_functional)) login_text init_state =
     Done \<lparr>messages =
             [\<lparr>role = ''user'', content = login_text, category = None, timestamp = 1\<rparr>,
              \<lparr>role = ''assistant'',
               content = bot_response (sample_world (Text reply_functional)) (JStr ''Functional'')
                           (JStr ''Describes a feature'') (JStr login_text),
               category = Some (JStr ''Functional''), timestamp = 3\<rparr>],
           requirements =
             [(''functional'',
                [\<lparr>original = login_text, rewritten = JStr login_text,
                  explanation = JStr ''Describes a feature'', created = 2\<rparr>]),
              (''non_functional'', []), (''domain'', []), (''inverse'', [])]\<rparr>"
  by code_simp

text \<open>
  Claim C4. From any state that has the four category keys, submitting
  "The system shall allow login via email" when the classifier returns the result
  (Functional, "Describes a feature", the same text) ends in a state where the list under
  \<open>functional\<close> has one more entry, at its end, whose original text is the input; the
  conversation log has two more turns, the user's and then the assistant's; the count of
  \<open>functional\<close> is one higher and the other three counts are as before.
\<close>

theorem submit_login_functional:
  assumes "classify_requirement w login_text =
             JDict [(''classification'', JStr ''Functional''),
                    (''explanation'', JStr ''Describes a feature''),
                    (''suggested_rewrite'', JStr login_text)]"
      and "map fst (requirements st) = category_keys"
  shows "\<exists>st' old entry u a.
           submit w login_text st = Done st' \<and>
           map_of (requirements st) ''functional'' = Some old \<and>
           map_of (requirements st') ''functional'' = Some (old @ [entry]) \<and>
           original entry = login_text \<and>
           messages st' = messages st @ [u, a] \<and> role u = ''user'' \<and> role a = ''assistant'' \<and>
           count_of st ''functional'' = Some (length old) \<and>
           count_of st' ''functional'' = Some (Suc (length old)) \<and>
           count_of st' ''non_functional'' = count_of st ''non_functional'' \<and>
           count_of st' ''domain'' = count_of st ''domain'' \<and>
           count_of st' ''inverse'' = count_of st ''inverse''"
proof -
  let ?r = "JDict [(''classification'', JStr ''Functional''),
                   (''explanation'', JStr ''Describes a feature''),
                   (''suggested_rewrite'', JStr login_text)]"
  have key: "resolve_category ''Functional'' = ''functional''" by code_simp
  from functional_present [OF assms(2)] obtain old
    where old: "map_of (requirements st) ''functional'' = Some old" by blast
  have ne: "login_text \<noteq> []" by (simp add: login_text_def)
  have g1: "py_getitem ?r ''classification'' = Inr (JStr ''Functional'')" by simp
  have g2: "py_getitem ?r ''suggested_rewrite'' = Inr (JStr login_text)" by simp
  have g3: "py_getitem ?r ''explanation'' = Inr (JStr ''Describes a feature'')" by simp
  from submit_ok [OF ne assms(1) g1 g2 g3, of st old] old key
  obtain reqs' where s: "submit w login_text st =
      Done \<lparr>messages = messages st @
               [user_message w login_text,
                assistant_message w (JStr ''Functional'') (JStr ''Describes a feature'')
                  (JStr login_text)],
            requirements = reqs'\<rparr>"
    and l: "\<forall>k. map_of reqs' k =
              (if k = ''functional''
               then Some (old @ [\<lparr>original = login_text, rewritten = JStr login_text,
                                   explanation = JStr ''Describes a feature'',
                                   created = time_entry w\<rparr>])
               else map_of (requirements st) k)"
    by auto
  show ?thesis
    using s l old
    by (simp add: count_of_def user_message_def assistant_message_def)
qed

theorem submit_login_functional_witness:
  "classify_requirement (sample_world (Text reply_functional)) login_text =
     JDict [(''classification'', JStr ''Functional''),
            (''explanation'', JStr ''Describes a feature''),
            (''suggested_rewrite'', JStr login_text)] \<and>
   map fst (requirements init_state) = category_keys \<and>
   (\<exists>st' old entry u a.
      submit (sample_world (Text reply_functional)) login_text init_state = Done st' \<and>
      map_of (requirements init_state) ''functional'' = Some old \<and>
      map_of (requirements st') ''functional'' = Some (old @ [entry]) \<and>
      original entry = login_text \<and>
      messages st' = messages init_state @ [u, a] \<and>
      role u = ''user'' \<and> role a = ''assistant'' \<and>
      count_of init_state ''functional'' = Some (length old) \<and>
      count_of st' ''functional'' = Some (Suc (length old)) \<and>
      count_of st' ''non_functional'' = count_of init_state ''non_functional'' \<and>
      count_of st' ''domain'' = count_of init_state ''domain'' \<and>
      count_of st' ''inverse'' = count_of init_state ''inverse'')"
proof -
  have h1: "classify_requirement (sample_world (Text reply_functional)) login_text =
     JDict [(''classification'', JStr ''Functional''),
            (''explanation'', JStr ''Describes a feature''),
            (''suggested_rewrite'', JStr login_text)]"
    by code_simp
  have h2: "map fst (requirements init_state) = category_keys"
    by (simp add: init_state_def empty_requirements_def category_keys_def)
  from submit_login_functional [OF h1 h2] h1 h2 show ?thesis by blast
qed

section \<open>Classification failures\<close>

lemma classify_requirement_fallback:
  assumes "generate w (prompt t) = Failed \<or>
           (\<exists>body. generate w (prompt t) = Text body \<and> loads w (strip_fences body) = None)"
  shows "classify_requirement w t = fallback t"
  using assms by (auto simp: classify_requirement_def)

text \<open>Whatever the decoder accepts is returned as it is: no field is looked at.\<close>

lemma classify_requirement_returns_decoded:
  assumes "generate w (prompt t) = Text body"
      and "loads w (strip_fences body) = Some v"
  shows "classify_requirement w t = v"
  using assms by (simp add: classify_requirement_def)

lemma submit_raises_on_label:
  assumes "user_input \<noteq> []"
      and "py_getitem (classify_requirement w user_input) ''classification'' = Inl e"
  shows "submit w user_input st =
           Raised e (st\<lparr>messages := messages st @ [user_message w user_input]\<rparr>)"
  using assms by (simp add: submit_def add_requirement_def Let_def)

lemma submit_raises_on_rewrite:
  assumes "user_input \<noteq> []"
      and "py_getitem (classify_requirement w user_input) ''classification'' = Inr (JStr label)"
      and "py_getitem (classify_requirement w user_input) ''suggested_rewrite'' = Inl e"
  shows "submit w user_input st =
           Raised e (st\<lparr>messages := messages st @ [user_message w user_input]\<rparr>)"
  using assms by (simp add: submit_def add_requirement_def Let_def)

text \<open>
  Claim C2 (the code at its failing input). The spec has every classification failure,
  a reply that decodes to data without one of the three fields included, end in the
  fallback result. The code returns what \<^verbatim>\<open>json.loads\<close> returns without looking at its
  fields: for the reply
  \<^verbatim>\<open>{"classification": "Functional", "explanation": "Describes a feature"}\<close>
  the result is that dict, which is not the fallback and has no \<open>suggested_rewrite\<close>.
\<close>

theorem classify_requirement_missing_field:
  "classify_requirement (sample_world (Text reply_missing_field)) login_text =
     JDict [(''classification'', JStr ''Functional''),
            (''explanation'', JStr ''Describes a feature'')] \<and>
   classify_requirement (sample_world (Text reply_missing_field)) login_text
     \<noteq> fallback login_text \<and>
   py_getitem (classify_requirement (sample_world (Text reply_missing_field)) login_text)
     ''suggested_rewrite'' = Inl KeyError"
  by code_simp

text \<open>
  Claim C3 (the code at its failing inputs). The spec has no reply of the model make a
  submission raise past the call of the classifier. With the reply above,
  \<open>add_requirement\<close> raises KeyError at line 108; with the reply \<^verbatim>\<open>[]\<close> it raises TypeError
  at line 94. In both runs the user's turn is already in the log, nothing is stored and no
  assistant's turn follows.
\<close>

theorem submit_raises_on_malformed_result:
  "submit (sample_world (Text reply_missing_field)) login_text init_state =
     Raised KeyError
       \<lparr>messages = [\<lparr>role = ''user'', content = login_text, category = None, timestamp = 1\<rparr>],
        requirements = empty_requirements\<rparr> \<and>
   submit (sample_world (Text ''[]'')) login_text init_state =
     Raised TypeError
       \<lparr>messages = [\<lparr>role = ''user'', content = login_text, category = None, timestamp = 1\<rparr>],
        requirements = empty_requirements\<rparr>"
  by code_simp

section \<open>Failed classifications\<close>

text \<open>
  Claim C9. When the classification fails, so that the fallback result with the label
  "Unknown" is produced (the call or \<^verbatim>\<open>response.text\<close> raises, or \<^verbatim>\<open>json.loads\<close> rejects the
  cleaned reply), the label matches none of the markers and the default branch (line 104)
  files the record under \<open>functional\<close>: the submission completes, the new entry is the
  last one under \<open>functional\<close>, the count of \<open>functional\<close> is one higher and the other
  three counts are as before.
\<close>

theorem failed_classification_goes_to_functional:
  assumes "user_input \<noteq> []"
      and "generate w (prompt user_input) = Failed \<or>
           (\<exists>body. generate w (prompt user_input) = Text body \<and>
                   loads w (strip_fences body) = None)"
      and "map fst (requirements st) = category_keys"
  shows "classify_requirement w user_input = fallback user_input \<and>
         (\<exists>st' old entry.
            submit w user_input st = Done st' \<and>
            map_of (requirements st) ''functional'' = Some old \<and>
            map_of (requirements st') ''functional'' = Some (old @ [entry]) \<and>
            original entry = user_input \<and>
            count_of st ''functional'' = Some (length old) \<and>
            count_of st' ''functional'' = Some (Suc (length old)) \<and>
            count_of st' ''non_functional'' = count_of st ''non_functional'' \<and>
            count_of st' ''domain'' = count_of st ''domain'' \<and>
            count_of st' ''inverse'' = count_of st ''inverse'')"
proof -
  have c: "classify_requirement w user_input = fallback user_input"
    using assms(2) by (rule classify_requirement_fallback)
  have key: "resolve_category ''Unknown'' = ''functional''" by code_simp
  from functional_present [OF assms(3)] obtain old
    where old: "map_of (requirements st) ''functional'' = Some old" by blast
  have g1: "py_getitem (fallback user_input) ''classification'' = Inr (JStr ''Unknown'')"
    by (simp add: fallback_def)
  have g2: "py_getitem (fallback user_input) ''suggested_rewrite'' = Inr (JStr user_input)"
    by (simp add: fallback_def)
  have g3: "py_getitem (fallback user_input) ''explanation'' = Inr (JStr ''Failed to classify'')"
    by (simp add: fallback_def)
  from submit_ok [OF assms(1) c g1 g2 g3, of st old] old key
  obtain reqs' where s: "submit w user_input st =
      Done \<lparr>messages = messages st @
               [user_message w user_input,
                assistant_message w (JStr ''Unknown'') (JStr ''Failed to classify'')
                  (JStr user_input)],
            requirements = reqs'\<rparr>"
    and l: "\<forall>k. map_of reqs' k =
              (if k = ''functional''
               then Some (old @ [\<lparr>original = user_input, rewritten = JStr user_input,
                                   explanation = JStr ''Failed to classify'',
                                   created = time_entry w\<rparr>])
               else map_of (requirements st) k)"
    by auto
  have "\<exists>st' old entry.
            submit w user_input st = Done st' \<and>
            map_of (requirements st) ''functional'' = Some old \<and>
            map_of (requirements st') ''functional'' = Some (old @ [entry]) \<and>
            original entry = user_input \<and>
            count_of st ''functional'' = Some (length old) \<and>
            count_of st' ''functional'' = Some (Suc (length old)) \<and>
            count_of st' ''non_functional'' = count_of st ''non_functional'' \<and>
            count_of st' ''domain'' = count_of st ''domain'' \<and>
            count_of st' ''inverse'' = count_of st ''inverse''"
    using s l old by (simp add: count_of_def)
  with c show ?thesis by blast
qed

theorem failed_classification_goes_to_functional_witness:
  "login_text \<noteq> [] \<and>
   generate (sample_world Failed) (prompt login_text) = Failed \<and>
   map fst (requirements init_state) = category_keys \<and>
   classify_requirement (sample_world Failed) login_text = fallback login_text \<and>
   (\<exists>st' old entry.
      submit (sample_world Failed) login_text init_state = Done st' \<and>
      map_of (requirements init_state) ''functional'' = Some old \<and>
      map_of (requirements st') ''functional'' = Some (old @ [entry]) \<and>
      original entry = login_text \<and>
      count_of init_state ''functional'' = Some (length old) \<and>
      count_of st' ''functional'' = Some (Suc (length old)) \<and>
      count_of st' ''non_functional'' = count_of init_state ''non_functional'' \<and>
      count_of st' ''domain'' = count_of init_state ''domain'' \<and>
      count_of st' ''inverse'' = count_of init_state ''inverse'')"
proof -
  have h1: "login_text \<noteq> []" by (simp add: login_text_def)
  have h2: "generate (sample_world Failed) (prompt login_text) = Failed"
    by (simp add: sample_world_def)
  have h3: "map fst (requirements init_state) = category_keys"
    by (simp add: init_state_def empty_requirements_def category_keys_def)
  from failed_classification_goes_to_functional [OF h1 disjI1 [OF h2] h3] h1 h2 h3
  show ?thesis by blast
qed

section \<open>The keys of the store\<close>

lemma submit_frame:
  "map fst (requirements (step st (Submit w t))) = map fst (requirements st)"
  by (auto simp: submit_def Let_def split: sum.splits dest: add_requirement_frame)

lemma empty_requirements_keys: "map fst empty_requirements = category_keys"
  by (simp add: empty_requirements_def category_keys_def)

lemma step_keys:
  "map fst (requirements st) = category_keys \<Longrightarrow>
   map fst (requirements (step st e)) = category_keys"
proof (cases e)
  case (Submit w t)
  assume "map fst (requirements st) = category_keys"
  then show ?thesis using submit_frame [of st w t] Submit by simp
next
  case ClearAllRequirements
  then show ?thesis
    by (simp add: clear_all_requirements_def reset_messages_def reset_requirements_def
                  empty_requirements_keys)
next
  case ClearChat
  assume "map fst (requirements st) = category_keys"
  then show ?thesis using ClearChat
    by (simp add: clear_chat_def reset_messages_def reset_requirements_def
                  empty_requirements_keys)
qed

lemma foldl_step_keys:
  "map fst (requirements st) = category_keys \<Longrightarrow>
   map fst (requirements (foldl step st es)) = category_keys"
  by (induction es arbitrary: st) (simp_all add: step_keys)

text \<open>
  Claim C6. After any sequence of actions of a session (none, submissions that complete
  or stop at an exception, either clear button), the store has exactly the four keys
  functional, non_functional, domain and inverse, each with a list.
\<close>

theorem store_keys_invariant:
  "map fst (requirements (run events)) =
     [''functional'', ''non_functional'', ''domain'', ''inverse''] \<and>
   dom (map_of (requirements (run events))) =
     {''functional'', ''non_functional'', ''domain'', ''inverse''}"
proof -
  have k: "map fst (requirements (run events)) = category_keys"
    unfolding run_def
    by (rule foldl_step_keys) (simp add: init_state_def empty_requirements_keys)
  have "dom (map_of (requirements (run events))) = set (map fst (requirements (run events)))"
    by (simp add: dom_map_of_conv_image_fst)
  with k show ?thesis by (auto simp: category_keys_def)
qed

section \<open>Clearing\<close>

lemma interaction_state: "snd (interaction (Some e) st) = step st e"
proof (cases e)
  case (Submit w user_input)
  then show ?thesis
    by (cases "submit w user_input st")
       (auto simp: interaction_def script_def display_and_clear_chat_def render_metrics_def
                   render_chat_def submit_def Let_def)
next
  case ClearAllRequirements
  then show ?thesis
    by (simp add: interaction_def script_def display_and_clear_chat_def render_metrics_def
                  render_chat_def assign_requirements_def assign_messages_def
                  clear_all_requirements_def reset_messages_def reset_requirements_def Let_def)
next
  case ClearChat
  then show ?thesis
    by (simp add: interaction_def script_def display_and_clear_chat_def render_metrics_def
                  render_chat_def assign_requirements_def assign_messages_def
                  clear_chat_def reset_messages_def reset_requirements_def Let_def)
qed

text \<open>
  The state between the two assignments of a handler has one of the two cleared and the
  other as it was, and a render statement standing there would read it.
\<close>

lemma between_the_assignments:
  "snd (assign_requirements (tr, st)) = reset_requirements st \<and>
   requirements (reset_requirements st) = empty_requirements \<and>
   messages (reset_requirements st) = messages st \<and>
   snd (assign_messages (tr, st)) = reset_messages st \<and>
   messages (reset_messages st) = [] \<and>
   requirements (reset_messages st) = requirements st"
  by (simp add: assign_requirements_def assign_messages_def reset_requirements_def
                reset_messages_def)

lemma render_between_reads_half_cleared:
  "fst (render_chat (assign_requirements (tr, st))) = tr @ [(ChatMessages, reset_requirements st)] \<and>
   fst (render_metrics (assign_messages (tr, st))) = tr @ [(SidebarMetrics, reset_messages st)]"
  by (simp add: render_chat_def render_metrics_def assign_requirements_def assign_messages_def)

text \<open>
  Claim C5. When a clear button fires in a state \<open>st\<close>, the state left is the initial one:
  the four lists of the store are empty and the conversation log is empty. Of the render
  statements that run, those before the handler read \<open>st\<close> and those of the run that
  \<^verbatim>\<open>st.rerun()\<close> starts read the initial state; none runs between the two assignments,
  so every state something is rendered from is \<open>st\<close> or the initial state, never one in
  which only one of the two is cleared. The
  button under the chat exists only while there are messages; without them nothing is
  cleared.
\<close>

theorem clear_is_one_transaction:
  "interaction (Some ClearAllRequirements) st =
     ([(SidebarMetrics, st), (SidebarMetrics, init_state), (ChatMessages, init_state)],
      init_state) \<and>
   interaction (Some ClearChat) st =
     (if messages st = [] then ([(SidebarMetrics, st), (ChatMessages, st)], st)
      else ([(SidebarMetrics, st), (ChatMessages, st),
             (SidebarMetrics, init_state), (ChatMessages, init_state)],
            init_state)) \<and>
   snd ` set (fst (interaction (Some ClearAllRequirements) st)) \<subseteq> {st, init_state} \<and>
   snd ` set (fst (interaction (Some ClearChat) st)) \<subseteq> {st, init_state} \<and>
   step st ClearAllRequirements = init_state \<and>
   clear_chat st = (if messages st = [] then None else Some init_state) \<and>
   messages init_state = [] \<and>
   requirements init_state =
     [(''functional'', []), (''non_functional'', []), (''domain'', []), (''inverse'', [])]"
  by (cases st)
     (simp add: interaction_def script_def display_and_clear_chat_def render_metrics_def
                render_chat_def assign_requirements_def assign_messages_def
                clear_all_requirements_def clear_chat_def reset_messages_def
                reset_requirements_def init_state_def empty_requirements_def Let_def)

theorem clear_is_one_transaction_witness:
  "messages sample_state \<noteq> [] \<and>
   requirements sample_state \<noteq> empty_requirements \<and>
   interaction (Some ClearAllRequirements) sample_state =
     ([(SidebarMetrics, sample_state), (SidebarMetrics, init_state), (ChatMessages, init_state)],
      init_state) \<and>
   interaction (Some ClearChat) sample_state =
     ([(SidebarMetrics, sample_state), (ChatMessages, sample_state),
       (SidebarMetrics, init_state), (ChatMessages, init_state)],
      init_state)"
proof -
  have s: "sample_state =
     \<lparr>messages =
        [\<lparr>role = ''user'', content = login_text, category = None, timestamp = 1\<rparr>,
         \<lparr>role = ''assistant'',
          content = bot_response (sample_world (Text reply_functional)) (JStr ''Functional'')
                      (JStr ''Describes a feature'') (JStr login_text),
          category = Some (JStr ''Functional''), timestamp = 3\<rparr>],
      requirements =
        [(''functional'',
           [\<lparr>original = login_text, rewritten = JStr login_text,
             explanation = JStr ''Describes a feature'', created = 2\<rparr>]),
         (''non_functional'', []), (''domain'', []), (''inverse'', [])]\<rparr>"
    by (simp add: sample_state_def run_def submit_login_functional_run)
  have m: "messages sample_state \<noteq> []" by (simp add: s)
  have r: "requirements sample_state \<noteq> empty_requirements"
    by (simp add: s empty_requirements_def)
  from clear_is_one_transaction [of sample_state] m r show ?thesis by simp
qed

section \<open>The conversation display\<close>

lemma py_slice_last_ten: "py_slice_from (- 10) xs = drop (length xs - 10) xs"
  by (auto simp: py_slice_from_def Let_def max_def intro: arg_cong [where f = "\<lambda>n. drop n xs"])

text \<open>
  Claim C7. The display loop renders the last \<open>min 10 n\<close> turns of a log of \<open>n\<close> turns,
  in the order of the log, and leaves the session state (the whole log) as it was.
\<close>

theorem display_last_ten:
  "fst (display_messages st) =
     map (\<lambda>m. (role m, content m)) (drop (length (messages st) - 10) (messages st)) \<and>
   length (fst (display_messages st)) = min 10 (length (messages st)) \<and>
   snd (display_messages st) = st"
  by (auto simp: display_messages_def py_slice_last_ten)

section \<open>What the decoder is given\<close>

text \<open>
  \<open>replace_from\<close> removes occurrences and nothing else: a text without the marker is
  left as it is, and the first occurrence is cut out with the scan going on behind it.
\<close>

lemma replace_from_absent: "\<not> py_in old s \<Longrightarrow> replace_from old new s = s"
  by (induction s) auto

lemma replace_from_at_occurrence:
  "old \<noteq> [] \<Longrightarrow> replace_from old new (old @ b) = new @ replace_from old new b"
  by (cases old) auto

lemma prefix_shorter:
  "prefix p (u @ v) \<Longrightarrow> length p \<le> length u \<Longrightarrow> prefix p u"
  by (metis prefix_append prefix_length_le prefix_order.antisym_conv prefix_def append_eq_append_conv_if append_take_drop_id)

lemma replace_from_first_occurrence:
  assumes "old \<noteq> []" and "\<not> py_in old (a @ butlast old)"
  shows "replace_from old new (a @ old @ b) = a @ new @ replace_from old new b"
  using assms(2)
proof (induction a)
  case Nil
  show ?case using assms(1) by (simp add: replace_from_at_occurrence)
next
  case (Cons x a)
  from Cons.prems have np: "\<not> prefix old (x # a @ butlast old)"
    and rest: "\<not> py_in old (a @ butlast old)" by simp_all
  have "\<not> prefix old (x # a @ old @ b)"
  proof
    assume p: "prefix old (x # a @ old @ b)"
    have "x # a @ old @ b = (x # a @ butlast old) @ (last old # b)"
      using assms(1) by simp
    with p have "prefix old ((x # a @ butlast old) @ (last old # b))" by simp
    moreover have "length old \<le> length (x # a @ butlast old)"
      using assms(1) by (cases old rule: rev_cases) simp_all
    ultimately have "prefix old (x # a @ butlast old)" by (rule prefix_shorter)
    with np show False by contradiction
  qed
  then show ?case using Cons.IH [OF rest] by simp
qed

text \<open>After line 79 no run of three backquotes is left.\<close>

lemma no_pair_kept:
  "\<not> prefix ''``'' s \<Longrightarrow> \<not> prefix ''``'' (replace_from ''```'' [] s)"
proof (cases s)
  case Nil
  then show ?thesis by simp
next
  case (Cons x s')
  assume a: "\<not> prefix ''``'' s"
  show ?thesis
  proof (cases s')
    case Nil
    with Cons show ?thesis by simp
  next
    case (Cons y s'')
    with \<open>s = x # s'\<close> a show ?thesis by auto
  qed
qed

lemma replace_from_no_fence: "\<not> py_in ''```'' (replace_from ''```'' [] s)"
proof (induction "''```''" "[] :: string" s rule: replace_from.induct)
  case 1
  show ?case by simp
next
  case (2 c cs)
  let ?f = "''```''"
  show ?case
  proof (cases "prefix ?f (c # cs)")
    case True
    then have "?f \<noteq> [] \<and> prefix ?f (c # cs)" by blast
    then have ni: "\<not> py_in ?f (replace_from ?f [] (drop (length ?f - 1) cs))"
      by (rule 2(1))
    from True have c: "c = CHR 0x60" and pp: "prefix ''``'' cs" by auto
    have e: "replace_from ?f [] (c # cs) = replace_from ?f [] (drop (length ?f - 1) cs)"
      unfolding c using pp by simp
    show ?thesis unfolding e by (rule ni)
  next
    case False
    then have "\<not> (?f \<noteq> [] \<and> prefix ?f (c # cs))" by blast
    then have ih: "\<not> py_in ?f (replace_from ?f [] cs)" by (rule 2(2))
    have e: "replace_from ?f [] (c # cs) = c # replace_from ?f [] cs"
      using False by (cases "c = CHR 0x60") simp_all
    have np: "\<not> prefix ?f (c # replace_from ?f [] cs)"
    proof
      assume p: "prefix ?f (c # replace_from ?f [] cs)"
      then have c: "c = CHR 0x60" and q: "prefix ''``'' (replace_from ?f [] cs)" by auto
      from False c have "\<not> prefix ''``'' cs" by simp
      from no_pair_kept [OF this] q show False by contradiction
    qed
    have "py_in ?f (c # replace_from ?f [] cs) =
            (prefix ?f (c # replace_from ?f [] cs) \<or> py_in ?f (replace_from ?f [] cs))"
      by (rule py_in.simps)
    with np ih show ?thesis unfolding e by blast
  qed
qed

lemma py_strip_sublist: "sublist (py_strip s) s"
proof -
  have "suffix (dropWhile py_isspace s) s" by (rule suffix_dropWhile)
  moreover have "prefix (rev (dropWhile py_isspace (rev (dropWhile py_isspace s)))) (dropWhile py_isspace s)"
    by (metis suffix_dropWhile suffix_to_prefix rev_rev_ident)
  ultimately show ?thesis unfolding py_strip_def
    by (meson prefix_imp_sublist suffix_imp_sublist sublist_order.order.trans)
qed

lemma strip_fences_no_fence: "\<not> py_in ''```'' (strip_fences body)"
proof
  assume "py_in ''```'' (strip_fences body)"
  then have "sublist ''```'' (py_strip (replace_from ''```'' [] (py_replace ''```json'' [] body)))"
    by (simp add: py_in_sublist strip_fences_def py_replace_def)
  with py_strip_sublist have "sublist ''```'' (replace_from ''```'' [] (py_replace ''```json'' [] body))"
    by (meson sublist_order.order.trans)
  with replace_from_no_fence show False by (simp add: py_in_sublist)
qed

text \<open>
  Claim C10. Whatever the model replies, the string given to \<^verbatim>\<open>json.loads\<close> is the reply
  with the occurrences of \<^verbatim>\<open>```json\<close> removed, then the occurrences of \<^verbatim>\<open>```\<close> removed,
  then the white space at both ends stripped, and the result of the decoder on that
  string decides what \<open>classify_requirement\<close> returns. The removal is by position in
  the text, not by its role: in the sample reply the marker inside the explanation's
  string value is removed as well.
\<close>

theorem decoder_input_is_cleaned_reply:
  assumes "generate w (prompt t) = Text body"
  shows "classify_requirement w t =
           (case loads w (py_strip (py_replace ''```'' [] (py_replace ''```json'' [] body))) of
              None \<Rightarrow> fallback t
            | Some result \<Rightarrow> result)"
  using assms by (simp add: classify_requirement_def strip_fences_def)

lemma reply_fenced_cleaned:
  "py_strip (py_replace ''```'' [] (py_replace ''```json'' [] reply_fenced)) =
     ''{\"classification\": \"Domain\", \"explanation\": \"uses  fences\", \"suggested_rewrite\": \"keep\"}''"
  by code_simp

theorem decoder_input_is_cleaned_reply_witness:
  "generate (sample_world (Text reply_fenced)) (prompt login_text) = Text reply_fenced \<and>
   classify_requirement (sample_world (Text reply_fenced)) login_text =
     (case loads (sample_world (Text reply_fenced))
             (py_strip (py_replace ''```'' [] (py_replace ''```json'' [] reply_fenced))) of
        None \<Rightarrow> fallback login_text
      | Some result \<Rightarrow> result) \<and>
   py_strip (py_replace ''```'' [] (py_replace ''```json'' [] reply_fenced)) =
     ''{\"classification\": \"Domain\", \"explanation\": \"uses  fences\", \"suggested_rewrite\": \"keep\"}'' \<and>
   classify_requirement (sample_world (Text reply_fenced)) login_text =
     JDict [(''classification'', JStr ''Domain''),
            (''explanation'', JStr ''uses  fences''),
            (''suggested_rewrite'', JStr ''keep'')]"
proof -
  have h: "generate (sample_world (Text reply_fenced)) (prompt login_text) = Text reply_fenced"
    by (simp add: sample_world_def)
  have c: "classify_requirement (sample_world (Text reply_fenced)) login_text =
     JDict [(''classification'', JStr ''Domain''),
            (''explanation'', JStr ''uses  fences''),
            (''suggested_rewrite'', JStr ''keep'')]"
    by code_simp
  from decoder_input_is_cleaned_reply [OF h] h c reply_fenced_cleaned
  show ?thesis by blast
qed

end
